theory Spec2Isabelle
  imports Main "HOL-Library.Sublist"
begin

section \<open>The eBridge login script against an arbitrary browser\<close>

text \<open>
  The program is one Python module, \<^verbatim>\<open>server/Services/ebEmulator/ebridge.py\<close>:
  a straight-line script that checks \<^verbatim>\<open>sys.argv\<close> and then drives a
  \<^verbatim>\<open>BrowserEmulator\<close> object. The class lives in another module and the pages
  it talks to live on a web server, so everything the script asks of them is answered by a
  parameter of the model, the \<^emph>\<open>world\<close>: a function from the history of the run and the
  operation attempted to the reply (a value, or an exception).

  Conventions:
  \<^item> a Python \<^verbatim>\<open>str\<close> is the list of the bytes of its UTF-8 encoding; the two button
    names that are not ASCII are spelled out byte by byte;
  \<^item> the three \<^verbatim>\<open>import\<close> lines bind names and are not operations of the run;
  \<^item> \<^verbatim>\<open>print(v)\<close> is recorded with the value \<open>v\<close> it is given (a string is
    written as it is), \<^verbatim>\<open>time.sleep(n)\<close> with its number of seconds.
\<close>

subsection \<open>Values, operations and replies\<close>

datatype pyval = PNone | PBool bool | PStr string | PObj nat

datatype exn = SystemExit int | AttributeError string | LibraryError string

datatype reply = Returns pyval | Raises exn

text \<open>
  An operation of the run: \<open>Construct cls kwargs\<close> is \<^verbatim>\<open>cls(**kwargs)\<close>,
  \<open>GetAttr r a\<close> is \<^verbatim>\<open>r.a\<close>, \<open>Method r m args kwargs\<close> is
  \<^verbatim>\<open>r.m(*args, **kwargs)\<close>; the other three are the calls into the standard library.
\<close>

datatype call =
    Construct string "(string \<times> pyval) list"
  | GetAttr pyval string
  | Method pyval string "pyval list" "(string \<times> pyval) list"
  | Sleep nat
  | Print pyval
  | SysExit int

type_synonym event = "call \<times> reply"

type_synonym world = "event list \<Rightarrow> call \<Rightarrow> reply"

type_synonym prog = "world \<Rightarrow> event list \<Rightarrow> (exn + pyval) \<times> event list"

fun is_object :: "pyval \<Rightarrow> bool" where
  "is_object (PObj h) = True"
| "is_object _ = False"

text \<open>
  What an attempted operation yields. The standard library answers by itself:
  \<^verbatim>\<open>time.sleep\<close> and \<^verbatim>\<open>print\<close> return \<^verbatim>\<open>None\<close>,
  \<^verbatim>\<open>sys.exit(n)\<close> raises \<^verbatim>\<open>SystemExit(n)\<close>. \<^verbatim>\<open>None\<close>, a
  \<^verbatim>\<open>bool\<close> and a \<^verbatim>\<open>str\<close> have none of the attributes the script asks for, so
  asking them raises \<^verbatim>\<open>AttributeError\<close>. Everything else is the world's answer.
\<close>

fun respond :: "world \<Rightarrow> event list \<Rightarrow> call \<Rightarrow> reply" where
  "respond w tr (Sleep n) = Returns PNone"
| "respond w tr (Print v) = Returns PNone"
| "respond w tr (SysExit n) = Raises (SystemExit n)"
| "respond w tr (Construct cls kw) = w tr (Construct cls kw)"
| "respond w tr (GetAttr r a) =
     (if is_object r then w tr (GetAttr r a) else Raises (AttributeError a))"
| "respond w tr (Method r m args kw) =
     (if is_object r then w tr (Method r m args kw) else Raises (AttributeError m))"

subsection \<open>Sequential execution with uncaught exceptions\<close>

definition perform :: "call \<Rightarrow> prog" where
  "perform c w tr =
     (case respond w tr c of
        Returns v \<Rightarrow> (Inr v, tr @ [(c, Returns v)])
      | Raises e \<Rightarrow> (Inl e, tr @ [(c, Raises e)]))"

definition ret :: "pyval \<Rightarrow> prog" where
  "ret v w tr = (Inr v, tr)"

definition and_then :: "prog \<Rightarrow> (pyval \<Rightarrow> prog) \<Rightarrow> prog" where
  "and_then m f w tr =
     (case m w tr of
        (Inl e, tr') \<Rightarrow> (Inl e, tr')
      | (Inr v, tr') \<Rightarrow> f v w tr')"

text \<open>
  A dotted expression \<^verbatim>\<open>r.a.b(x).c(y)\<close> evaluates from left to right, each step on
  the value of the one before; a block of statements runs them in order and drops their
  values. There is no \<^verbatim>\<open>try\<close> in the script, so an exception ends both.
\<close>

fun chain :: "pyval \<Rightarrow> (pyval \<Rightarrow> prog) list \<Rightarrow> prog" where
  "chain r [] = ret r"
| "chain r (k # ks) = and_then (k r) (\<lambda>v. chain v ks)"

fun stmts :: "prog list \<Rightarrow> prog" where
  "stmts [] = ret PNone"
| "stmts (s # ss) = and_then s (\<lambda>_. stmts ss)"

definition construct :: "string \<Rightarrow> (string \<times> pyval) list \<Rightarrow> prog" where
  "construct cls kw = perform (Construct cls kw)"

definition getattr :: "string \<Rightarrow> pyval \<Rightarrow> prog" where
  "getattr a r = perform (GetAttr r a)"

definition call_method :: "string \<Rightarrow> pyval list \<Rightarrow> (string \<times> pyval) list \<Rightarrow> pyval \<Rightarrow> prog" where
  "call_method m args kw r = perform (Method r m args kw)"

definition time_sleep :: "nat \<Rightarrow> prog" where
  "time_sleep n = perform (Sleep n)"

definition py_print :: "pyval \<Rightarrow> prog" where
  "py_print v = perform (Print v)"

definition sys_exit :: "int \<Rightarrow> prog" where
  "sys_exit n = perform (SysExit n)"

subsection \<open>The string literals of the script\<close>

definition missing_args_message :: string where
  \<open>missing_args_message = ''Error: Missing username or password arguments''\<close>

definition login_url :: string where
  \<open>login_url = ''https://ebridge.xjtlu.edu.cn''\<close>

definition username_selector :: string where
  \<open>username_selector = ''#MUA_CODE'' @ [CHR 0x5C] @ ''.DUMMY'' @ [CHR 0x5C] @ ''.MENSYS''\<close>

definition password_selector :: string where
  \<open>password_selector = ''#PASSWORD'' @ [CHR 0x5C] @ ''.DUMMY'' @ [CHR 0x5C] @ ''.MENSYS''\<close>

definition submit_selector :: string where
  \<open>submit_selector = ''body > div > form > div:nth-child(9) > div > div > div.sv-panel-body > div > fieldset > div:nth-child(4) > div.sv-col-sm-6.sv-col-sm-push-6 > div > input''\<close>

definition tile_selector :: string where
  \<open>tile_selector = ''body > div.sv-page-wrapper > div.sv-page-content.sv-container-fluid > div.sv-row > div:nth-child(2) > div > div > div:nth-child(2) > div.sv-list-group.sv-portal-2-col > div > div.sv-tiled-container > div > div > div:nth-child(1) > a''\<close>

definition clear_target_js :: string where
  \<open>clear_target_js = ''document.querySelector("'' @ tile_selector @ ''").target = ""''\<close>

definition timetables_button :: string where
  \<open>timetables_button =
     [CHR 0xEF, CHR 0x80, CHR 0xA2] @ '' Timetables '' @ [CHR 0xEE, CHR 0x89, CHR 0xA0]\<close>

definition redirect_js :: string where
  \<open>redirect_js = ''window.location = document.querySelector("#collapsible-panel-I7").childNodes[3].childNodes[1].childNodes[1].childNodes[0].childNodes[0].childNodes[3].childNodes[5].childNodes[3].childNodes[0].href''\<close>

definition confirm_button :: string where
  \<open>confirm_button = [CHR 0xE7, CHR 0xA1, CHR 0xAE, CHR 0xE5, CHR 0xAE, CHR 0x9A]\<close>

definition timetable_selector :: string where
  \<open>timetable_selector = ''body > div.sv-page-wrapper > div.sv-page-content.sv-container-fluid > div.sv-row > div > div:nth-child(2) > div.sv-list-group > div > div > div.sv-row > div > div:nth-child(1) > div > a > div''\<close>

definition frame_src_js :: string where
  \<open>frame_src_js = ''document.getElementById('myFrame').src''\<close>

subsection \<open>The script\<close>

definition ebridge_script :: "string list \<Rightarrow> prog" where
  "ebridge_script argv =
     (if length argv > 2 then
        (let username = argv ! 1; password = argv ! 2 in
         and_then (construct ''BrowserEmulator'' [(''headless'', PBool False)]) (\<lambda>browser.
         stmts [
           chain browser [call_method ''start'' [] []],
           chain browser [call_method ''visit'' [PStr login_url] []],
           time_sleep 3,
           chain browser [getattr ''focusedpage'',
             call_method ''query_selector'' [PStr username_selector] [],
             call_method ''fill'' [PStr username] []],
           chain browser [getattr ''focusedpage'',
             call_method ''query_selector'' [PStr password_selector] [],
             call_method ''fill'' [PStr password] []],
           chain browser [getattr ''focusedpage'',
             call_method ''query_selector'' [PStr submit_selector] [],
             call_method ''click'' [] []],
           chain browser [call_method ''wait_for_load'' [] []],
           chain browser [call_method ''eval_js'' [PStr clear_target_js] []],
           chain browser [getattr ''focusedpage'',
             call_method ''query_selector'' [PStr tile_selector] [],
             call_method ''click'' [] []],
           chain browser [call_method ''wait_for_load'' [] []],
           chain browser [getattr ''focusedpage'',
             call_method ''get_by_role'' [PStr ''button''] [(''name'', PStr timetables_button)],
             call_method ''click'' [] []],
           chain browser [call_method ''eval_js'' [PStr redirect_js] []],
           time_sleep 1,
           chain browser [getattr ''focusedpage'',
             call_method ''get_by_role'' [PStr ''button''] [(''name'', PStr confirm_button)],
             call_method ''click'' [] []],
           chain browser [getattr ''focusedpage'',
             call_method ''query_selector'' [PStr timetable_selector] [],
             call_method ''click'' [] []],
           and_then (chain browser [call_method ''eval_js'' [PStr frame_src_js] []]) py_print,
           time_sleep 2]))
      else
        stmts [
          py_print (PStr missing_args_message),
          sys_exit 1])"

text \<open>
  How the process ends: it runs off the end of the module, or an exception nobody caught
  ends it. The exit status is 0 in the first case; \<^verbatim>\<open>SystemExit(n)\<close> gives the low
  byte of \<open>n\<close>, any other exception 1 (after the traceback).
\<close>

datatype outcome = Completed | Uncaught exn

fun exit_status :: "outcome \<Rightarrow> int" where
  "exit_status Completed = 0"
| "exit_status (Uncaught (SystemExit n)) = n mod 256"
| "exit_status (Uncaught _) = 1"

definition run_ebridge :: "world \<Rightarrow> string list \<Rightarrow> event list \<times> outcome" where
  "run_ebridge w argv =
     (case ebridge_script argv w [] of
        (Inl e, tr) \<Rightarrow> (tr, Uncaught e)
      | (Inr v, tr) \<Rightarrow> (tr, Completed))"

subsection \<open>Reading a run\<close>

text \<open>
  The observations the properties below are stated with. All of them are computed from the
  list of events of a run.
\<close>

fun raised :: "reply \<Rightarrow> bool" where
  "raised (Raises e) = True"
| "raised (Returns v) = False"

definition raise_free :: "event list \<Rightarrow> bool" where
  "raise_free tr = list_all (\<lambda>ev. \<not> raised (snd ev)) tr"

fun is_browser_call :: "call \<Rightarrow> bool" where
  "is_browser_call (Construct cls kw) = True"
| "is_browser_call (GetAttr r a) = True"
| "is_browser_call (Method r m args kw) = True"
| "is_browser_call _ = False"



text \<open>
  An operation without the value it was applied to: the receiver of an attribute or of a
  method, the value handed to \<^verbatim>\<open>print\<close>. These come from the world; the rest of the
  operation is text of the script.
\<close>

fun shape :: "call \<Rightarrow> call" where
  "shape (GetAttr r a) = GetAttr PNone a"
| "shape (Method r m args kw) = Method PNone m args kw"
| "shape (Print v) = Print PNone"
| "shape c = c"

fun printed :: "event list \<Rightarrow> pyval list" where
  "printed [] = []"
| "printed ((Print v, r) # es) = v # printed es"
| "printed (ev # es) = printed es"

text \<open>The values that calls of \<^verbatim>\<open>eval_js\<close> with the script \<open>js\<close> returned.\<close>

fun eval_js_results :: "string \<Rightarrow> event list \<Rightarrow> pyval list" where
  "eval_js_results js [] = []"
| "eval_js_results js ((Method r m args kw, Returns v) # es) =
     (if m = ''eval_js'' \<and> args = [PStr js] then v # eval_js_results js es
      else eval_js_results js es)"
| "eval_js_results js (ev # es) = eval_js_results js es"

text \<open>
  Every \<^verbatim>\<open>fill\<close> of a run, in order: the selector whose lookup, as the operation just
  before, returned the element that is filled (\<open>None\<close> when the operation before is no such
  lookup), and the arguments of the fill.
\<close>

fun found_by :: "event option \<Rightarrow> pyval \<Rightarrow> string option" where
  "found_by (Some (Method page m [PStr sel] kw, Returns v)) r =
     (if m = ''query_selector'' \<and> v = r then Some sel else None)"
| "found_by prev r = None"

fun fills :: "event option \<Rightarrow> event list \<Rightarrow> (string option \<times> pyval list) list" where
  "fills prev [] = []"
| "fills prev ((Method r m args kw, rep) # es) =
     (if m = ''fill''
      then (found_by prev r, args) # fills (Some (Method r m args kw, rep)) es
      else fills (Some (Method r m args kw, rep)) es)"
| "fills prev (ev # es) = fills (Some ev) es"

fun is_method :: "string \<Rightarrow> call \<Rightarrow> bool" where
  "is_method name (Method r m args kw) = (m = name)"
| "is_method name _ = False"

text \<open>
  The script pauses in two ways: \<^verbatim>\<open>time.sleep(n)\<close>, for the number of seconds it
  names, and \<^verbatim>\<open>wait_for_load()\<close>, for as long as the browser takes. \<open>pauses\<close> lists
  every pause of a run, of either kind, with the shape of the operation just before it
  (\<open>None\<close> when the pause comes first).
\<close>

fun is_pause :: "call \<Rightarrow> bool" where
  "is_pause (Sleep n) = True"
| "is_pause (Method r m args kw) = (m = ''wait_for_load'')"
| "is_pause _ = False"

fun is_fixed_sleep :: "call \<Rightarrow> bool" where
  "is_fixed_sleep (Sleep n) = True"
| "is_fixed_sleep _ = False"

fun pauses :: "call option \<Rightarrow> event list \<Rightarrow> (call option \<times> call) list" where
  "pauses prev [] = []"
| "pauses prev ((c, r) # es) =
     (if is_pause c then (prev, shape c) # pauses (Some (shape c)) es
      else pauses (Some (shape c)) es)"

text \<open>
  How the element that is clicked was found: by the lookup that, as the operation just
  before, returned it. \<open>Unlocated\<close> is anything else, such as a click on a value no lookup
  has just returned.
\<close>

datatype locator =
    BySelector string
  | ByRole "pyval list" "(string \<times> pyval) list"
  | Unlocated

fun located_by :: "event option \<Rightarrow> pyval \<Rightarrow> locator" where
  "located_by (Some (Method page m args kw, Returns v)) r =
     (if v \<noteq> r then Unlocated
      else if m = ''query_selector'' then
        (case args of [PStr sel] \<Rightarrow> BySelector sel | _ \<Rightarrow> Unlocated)
      else if m = ''get_by_role'' then ByRole args kw
      else Unlocated)"
| "located_by prev r = Unlocated"

text \<open>
  The two ways the script goes through an element of a page: it clicks it, or it sends the
  window to the address the element links to, with a script that assigns
  \<^verbatim>\<open>window.location\<close>.
\<close>

datatype activation = Clicked locator | Redirected string

definition assigns_location :: "string \<Rightarrow> bool" where
  "assigns_location js = prefix ''window.location = '' js"

fun activations :: "event option \<Rightarrow> event list \<Rightarrow> activation list" where
  "activations prev [] = []"
| "activations prev ((Method r m args kw, rep) # es) =
     (if m = ''click'' then
        Clicked (located_by prev r) # activations (Some (Method r m args kw, rep)) es
      else if m = ''eval_js'' then
        (case args of
           [PStr js] \<Rightarrow>
             (if assigns_location js
              then Redirected js # activations (Some (Method r m args kw, rep)) es
              else activations (Some (Method r m args kw, rep)) es)
         | _ \<Rightarrow> activations (Some (Method r m args kw, rep)) es)
      else activations (Some (Method r m args kw, rep)) es)"
| "activations prev (ev # es) = activations (Some ev) es"

text \<open>The part of a run from the first \<^verbatim>\<open>wait_for_load\<close> on, that is, after the login.\<close>

definition after_login :: "event list \<Rightarrow> event list" where
  "after_login tr = dropWhile (\<lambda>ev. \<not> is_method ''wait_for_load'' (fst ev)) tr"

text \<open>
  An element is identified by an absolute selector when the selector is a path from
  \<^verbatim>\<open>body\<close>, and by a computed path in the document when the script that reads its
  address walks \<^verbatim>\<open>childNodes\<close>.
\<close>

fun mentions :: "string \<Rightarrow> string \<Rightarrow> bool" where
  "mentions p [] = (p = [])"
| "mentions p (x # xs) = (prefix p (x # xs) \<or> mentions p xs)"

fun by_absolute_selector_or_dom_path :: "activation \<Rightarrow> bool" where
  "by_absolute_selector_or_dom_path (Clicked (BySelector sel)) = prefix ''body > '' sel"
| "by_absolute_selector_or_dom_path (Redirected js) = mentions ''.childNodes['' js"
| "by_absolute_selector_or_dom_path _ = False"


text \<open>
  A run ends well-formed when only its last operation may have raised, and the process ends
  with that exception exactly when it did.
\<close>

fun settled :: "event list \<Rightarrow> outcome \<Rightarrow> bool" where
  "settled [] out = (out = Completed)"
| "settled ((c, Returns v) # es) out = settled es out"
| "settled ((c, Raises e) # es) out = (es = [] \<and> out = Uncaught e)"

text \<open>\<open>sat \<Phi> m w tr\<close>: running \<open>m\<close> in world \<open>w\<close> after the events \<open>tr\<close> ends in \<open>\<Phi>\<close>.\<close>

definition sat :: "((exn + pyval) \<times> event list \<Rightarrow> bool) \<Rightarrow> prog \<Rightarrow> world \<Rightarrow> event list \<Rightarrow> bool" where
  "sat \<Phi> m w tr = \<Phi> (m w tr)"

definition finish :: "(exn + pyval) \<times> event list \<Rightarrow> event list \<times> outcome" where
  "finish x = (case x of (Inl e, tr) \<Rightarrow> (tr, Uncaught e) | (Inr v, tr) \<Rightarrow> (tr, Completed))"

subsection \<open>Two worlds and three command lines to run the script on\<close>

text \<open>
  In \<open>obliging\<close> every operation succeeds: \<^verbatim>\<open>eval_js\<close> returns a URL, everything
  else a fresh object. In \<open>offline\<close> the navigation fails.
\<close>

definition obliging :: world where
  "obliging tr c =
     (if is_method ''eval_js'' c then Returns (PStr ''https://timetable.example/frame'')
      else Returns (PObj (length tr)))"

definition offline :: world where
  "offline tr c =
     (if is_method ''visit'' c then Raises (LibraryError ''net::ERR_NAME_NOT_RESOLVED'')
      else Returns (PObj (length tr)))"

definition argv_none :: "string list" where
  "argv_none = [''ebridge.py'']"

definition argv_login :: "string list" where
  "argv_login = [''ebridge.py'', ''alice'', ''s3cret'']"

definition argv_extra :: "string list" where
  "argv_extra = [''./ebridge.py'', ''alice'', ''s3cret'', ''--verbose'', ''x'']"

text \<open>The runs of the script on these inputs, event by event.\<close>

definition obliging_login_run :: "event list" where
  "obliging_login_run =
     [(Construct ''BrowserEmulator'' [(''headless'', PBool False)], Returns (PObj 0)),
      (Method (PObj 0) ''start'' [] [], Returns (PObj 1)),
      (Method (PObj 0) ''visit'' [PStr login_url] [], Returns (PObj 2)),
      (Sleep 3, Returns PNone),
      (GetAttr (PObj 0) ''focusedpage'', Returns (PObj 4)),
      (Method (PObj 4) ''query_selector'' [PStr username_selector] [], Returns (PObj 5)),
      (Method (PObj 5) ''fill'' [PStr ''alice''] [], Returns (PObj 6)),
      (GetAttr (PObj 0) ''focusedpage'', Returns (PObj 7)),
      (Method (PObj 7) ''query_selector'' [PStr password_selector] [], Returns (PObj 8)),
      (Method (PObj 8) ''fill'' [PStr ''s3cret''] [], Returns (PObj 9)),
      (GetAttr (PObj 0) ''focusedpage'', Returns (PObj 10)),
      (Method (PObj 10) ''query_selector'' [PStr submit_selector] [], Returns (PObj 11)),
      (Method (PObj 11) ''click'' [] [], Returns (PObj 12)),
      (Method (PObj 0) ''wait_for_load'' [] [], Returns (PObj 13)),
      (Method (PObj 0) ''eval_js'' [PStr clear_target_js] [],
         Returns (PStr ''https://timetable.example/frame'')),
      (GetAttr (PObj 0) ''focusedpage'', Returns (PObj 15)),
      (Method (PObj 15) ''query_selector'' [PStr tile_selector] [], Returns (PObj 16)),
      (Method (PObj 16) ''click'' [] [], Returns (PObj 17)),
      (Method (PObj 0) ''wait_for_load'' [] [], Returns (PObj 18)),
      (GetAttr (PObj 0) ''focusedpage'', Returns (PObj 19)),
      (Method (PObj 19) ''get_by_role'' [PStr ''button''] [(''name'', PStr timetables_button)],
         Returns (PObj 20)),
      (Method (PObj 20) ''click'' [] [], Returns (PObj 21)),
      (Method (PObj 0) ''eval_js'' [PStr redirect_js] [],
         Returns (PStr ''https://timetable.example/frame'')),
      (Sleep 1, Returns PNone),
      (GetAttr (PObj 0) ''focusedpage'', Returns (PObj 24)),
      (Method (PObj 24) ''get_by_role'' [PStr ''button''] [(''name'', PStr confirm_button)],
         Returns (PObj 25)),
      (Method (PObj 25) ''click'' [] [], Returns (PObj 26)),
      (GetAttr (PObj 0) ''focusedpage'', Returns (PObj 27)),
      (Method (PObj 27) ''query_selector'' [PStr timetable_selector] [], Returns (PObj 28)),
      (Method (PObj 28) ''click'' [] [], Returns (PObj 29)),
      (Method (PObj 0) ''eval_js'' [PStr frame_src_js] [],
         Returns (PStr ''https://timetable.example/frame'')),
      (Print (PStr ''https://timetable.example/frame''), Returns PNone),
      (Sleep 2, Returns PNone)]"

definition offline_login_run :: "event list" where
  "offline_login_run =
     [(Construct ''BrowserEmulator'' [(''headless'', PBool False)], Returns (PObj 0)),
      (Method (PObj 0) ''start'' [] [], Returns (PObj 1)),
      (Method (PObj 0) ''visit'' [PStr login_url] [],
         Raises (LibraryError ''net::ERR_NAME_NOT_RESOLVED''))]"

section \<open>How runs are enumerated\<close>

text \<open>
  The script is a sequence of operations, each of which either raises (and ends the run) or
  returns a value the rest goes on with. A property of every run is therefore proved by
  walking down the script: one case per operation that may raise, and one for the end.
  \<^verbatim>\<open>time.sleep\<close> and \<^verbatim>\<open>print\<close> always return.
\<close>

lemma and_then_assoc: "and_then (and_then m f) g = and_then m (\<lambda>v. and_then (f v) g)"
  by (rule ext, rule ext) (simp add: and_then_def split: prod.splits sum.splits)

lemma and_then_ret: "and_then (ret v) f = f v"
  by (rule ext, rule ext) (simp add: and_then_def ret_def)

lemma sat_ret: "\<Phi> (Inr v, tr) \<Longrightarrow> sat \<Phi> (ret v) w tr"
  by (simp add: sat_def ret_def)

lemma sat_step:
  assumes "\<And>e. \<Phi> (Inl e, tr @ [(c, Raises e)])"
    and "\<And>v. sat \<Phi> (f v) w (tr @ [(c, Returns v)])"
  shows "sat \<Phi> (and_then (perform c) f) w tr"
  using assms by (simp add: sat_def and_then_def perform_def split: reply.splits)

lemma sat_sleep:
  assumes "sat \<Phi> (f PNone) w (tr @ [(Sleep n, Returns PNone)])"
  shows "sat \<Phi> (and_then (perform (Sleep n)) f) w tr"
  using assms by (simp add: sat_def and_then_def perform_def)

lemma sat_print:
  assumes "sat \<Phi> (f PNone) w (tr @ [(Print v, Returns PNone)])"
  shows "sat \<Phi> (and_then (perform (Print v)) f) w tr"
  using assms by (simp add: sat_def and_then_def perform_def)

lemmas walk = sat_sleep sat_print sat_step sat_ret

lemmas prims =
  construct_def getattr_def call_method_def time_sleep_def py_print_def sys_exit_def

lemma run_sat:
  "sat (\<lambda>x. \<Psi> (finish x)) (ebridge_script argv) w [] \<Longrightarrow> \<Psi> (run_ebridge w argv)"
  by (simp add: sat_def run_ebridge_def finish_def)

lemma run_short:
  assumes "length argv \<le> 2"
  shows "run_ebridge w argv =
    ([(Print (PStr missing_args_message), Returns PNone), (SysExit 1, Raises (SystemExit 1))],
     Uncaught (SystemExit 1))"
  using assms
  by (simp add: run_ebridge_def ebridge_script_def prims and_then_def perform_def ret_def)

lemma completed_is_long:
  assumes "run_ebridge w argv = (tr, Completed)"
  shows "2 < length argv"
proof (rule ccontr)
  assume "\<not> 2 < length argv"
  then have "length argv \<le> 2" by simp
  from run_short [OF this, of w] assms show False by simp
qed

lemma js_distinct:
  "clear_target_js \<noteq> frame_src_js" "redirect_js \<noteq> frame_src_js"
  by (simp_all add: clear_target_js_def redirect_js_def frame_src_js_def)

subsection \<open>Facts about every run with two or more arguments\<close>

lemma run_long_headful:
  assumes "2 < length argv"
  shows "(\<forall>cls kw r. (Construct cls kw, r) \<in> set (fst (run_ebridge w argv)) \<longrightarrow>
        cls = ''BrowserEmulator'' \<and> kw = [(''headless'', PBool False)]) \<and>
     (\<exists>r es. (fst (run_ebridge w argv)) = (Construct ''BrowserEmulator'' [(''headless'', PBool False)], r) # es) \<and>
     (\<forall>n r. (SysExit n, r) \<notin> set (fst (run_ebridge w argv)))"
proof -
  have "sat (\<lambda>x. (\<forall>cls kw r. (Construct cls kw, r) \<in> set (fst (finish x)) \<longrightarrow>
        cls = ''BrowserEmulator'' \<and> kw = [(''headless'', PBool False)]) \<and>
     (\<exists>r es. (fst (finish x)) = (Construct ''BrowserEmulator'' [(''headless'', PBool False)], r) # es) \<and>
     (\<forall>n r. (SysExit n, r) \<notin> set (fst (finish x)))) (ebridge_script argv) w []"
    using assms unfolding ebridge_script_def
    apply (simp add: Let_def prims and_then_assoc and_then_ret)
    apply (intro walk)
    apply (simp_all add: finish_def )
    done
  then show ?thesis by (rule run_sat)
qed

lemma run_long_settled:
  assumes "2 < length argv"
  shows "settled (fst (run_ebridge w argv)) (snd (run_ebridge w argv))"
proof -
  have "sat (\<lambda>x. settled (fst (finish x)) (snd (finish x))) (ebridge_script argv) w []"
    using assms unfolding ebridge_script_def
    apply (simp add: Let_def prims and_then_assoc and_then_ret)
    apply (intro walk)
    apply (simp_all add: finish_def )
    done
  then show ?thesis by (rule run_sat)
qed

lemma run_long_printed:
  assumes "2 < length argv"
  shows "(snd (run_ebridge w argv)) = Completed \<longrightarrow>
     printed (fst (run_ebridge w argv)) = eval_js_results frame_src_js (fst (run_ebridge w argv)) \<and> length (printed (fst (run_ebridge w argv))) = 1"
proof -
  have "sat (\<lambda>x. (snd (finish x)) = Completed \<longrightarrow>
     printed (fst (finish x)) = eval_js_results frame_src_js (fst (finish x)) \<and> length (printed (fst (finish x))) = 1) (ebridge_script argv) w []"
    using assms unfolding ebridge_script_def
    apply (simp add: Let_def prims and_then_assoc and_then_ret)
    apply (intro walk)
    apply (simp_all add: finish_def js_distinct)
    done
  then show ?thesis by (rule run_sat)
qed

lemma run_long_fills:
  assumes "2 < length argv"
  shows "prefix (fills None (fst (run_ebridge w argv)))
      [(Some username_selector, [PStr (argv ! 1)]), (Some password_selector, [PStr (argv ! 2)])] \<and>
    (raise_free (take 10 (fst (run_ebridge w argv))) \<longrightarrow>
      (\<exists>browser r1 r2 page1 field1 r3 page2 field2 r4.
         take 10 (fst (run_ebridge w argv)) =
           [(Construct ''BrowserEmulator'' [(''headless'', PBool False)], Returns browser),
            (Method browser ''start'' [] [], r1),
            (Method browser ''visit'' [PStr login_url] [], r2),
            (Sleep 3, Returns PNone),
            (GetAttr browser ''focusedpage'', Returns page1),
            (Method page1 ''query_selector'' [PStr username_selector] [], Returns field1),
            (Method field1 ''fill'' [PStr (argv ! 1)] [], r3),
            (GetAttr browser ''focusedpage'', Returns page2),
            (Method page2 ''query_selector'' [PStr password_selector] [], Returns field2),
            (Method field2 ''fill'' [PStr (argv ! 2)] [], r4)]))"
proof -
  have "sat (\<lambda>x. prefix (fills None (fst (finish x)))
      [(Some username_selector, [PStr (argv ! 1)]), (Some password_selector, [PStr (argv ! 2)])] \<and>
    (raise_free (take 10 (fst (finish x))) \<longrightarrow>
      (\<exists>browser r1 r2 page1 field1 r3 page2 field2 r4.
         take 10 (fst (finish x)) =
           [(Construct ''BrowserEmulator'' [(''headless'', PBool False)], Returns browser),
            (Method browser ''start'' [] [], r1),
            (Method browser ''visit'' [PStr login_url] [], r2),
            (Sleep 3, Returns PNone),
            (GetAttr browser ''focusedpage'', Returns page1),
            (Method page1 ''query_selector'' [PStr username_selector] [], Returns field1),
            (Method field1 ''fill'' [PStr (argv ! 1)] [], r3),
            (GetAttr browser ''focusedpage'', Returns page2),
            (Method page2 ''query_selector'' [PStr password_selector] [], Returns field2),
            (Method field2 ''fill'' [PStr (argv ! 2)] [], r4)]))) (ebridge_script argv) w []"
    using assms unfolding ebridge_script_def
    apply (simp add: Let_def prims and_then_assoc and_then_ret)
    apply (intro walk)
    apply (simp_all add: finish_def raise_free_def)
    done
  then show ?thesis by (rule run_sat)
qed

lemma script_strings:
  "assigns_location redirect_js"
  "\<not> assigns_location clear_target_js"
  "\<not> assigns_location frame_src_js"
  "mentions ''.childNodes['' redirect_js"
  "prefix ''body > '' tile_selector"
  "prefix ''body > '' timetable_selector"
  by (simp_all add: assigns_location_def redirect_js_def clear_target_js_def frame_src_js_def
      tile_selector_def timetable_selector_def)

lemma run_long_sequence:
  assumes "2 < length argv"
  shows "(snd (run_ebridge w argv)) = Completed \<longrightarrow>
     (\<exists>browser started visited page1 field1 filled1 page2 field2 filled2 page3 submit clicked1
        loaded1 cleared page4 tile clicked2 loaded2 page5 timetables clicked3 redirected
        page6 confirm clicked4 page7 timetable clicked5 src.
        (fst (run_ebridge w argv)) =
         [(Construct ''BrowserEmulator'' [(''headless'', PBool False)], Returns browser),
          (Method browser ''start'' [] [], Returns started),
          (Method browser ''visit'' [PStr login_url] [], Returns visited),
          (Sleep 3, Returns PNone),
          (GetAttr browser ''focusedpage'', Returns page1),
          (Method page1 ''query_selector'' [PStr username_selector] [], Returns field1),
          (Method field1 ''fill'' [PStr (argv ! 1)] [], Returns filled1),
          (GetAttr browser ''focusedpage'', Returns page2),
          (Method page2 ''query_selector'' [PStr password_selector] [], Returns field2),
          (Method field2 ''fill'' [PStr (argv ! 2)] [], Returns filled2),
          (GetAttr browser ''focusedpage'', Returns page3),
          (Method page3 ''query_selector'' [PStr submit_selector] [], Returns submit),
          (Method submit ''click'' [] [], Returns clicked1),
          (Method browser ''wait_for_load'' [] [], Returns loaded1),
          (Method browser ''eval_js'' [PStr clear_target_js] [], Returns cleared),
          (GetAttr browser ''focusedpage'', Returns page4),
          (Method page4 ''query_selector'' [PStr tile_selector] [], Returns tile),
          (Method tile ''click'' [] [], Returns clicked2),
          (Method browser ''wait_for_load'' [] [], Returns loaded2),
          (GetAttr browser ''focusedpage'', Returns page5),
          (Method page5 ''get_by_role'' [PStr ''button''] [(''name'', PStr timetables_button)],
             Returns timetables),
          (Method timetables ''click'' [] [], Returns clicked3),
          (Method browser ''eval_js'' [PStr redirect_js] [], Returns redirected),
          (Sleep 1, Returns PNone),
          (GetAttr browser ''focusedpage'', Returns page6),
          (Method page6 ''get_by_role'' [PStr ''button''] [(''name'', PStr confirm_button)],
             Returns confirm),
          (Method confirm ''click'' [] [], Returns clicked4),
          (GetAttr browser ''focusedpage'', Returns page7),
          (Method page7 ''query_selector'' [PStr timetable_selector] [], Returns timetable),
          (Method timetable ''click'' [] [], Returns clicked5),
          (Method browser ''eval_js'' [PStr frame_src_js] [], Returns src),
          (Print src, Returns PNone),
          (Sleep 2, Returns PNone)]) \<and>
     activations None (after_login (fst (run_ebridge w argv))) =
       [Clicked (BySelector tile_selector),
        Clicked (ByRole [PStr ''button''] [(''name'', PStr timetables_button)]),
        Redirected redirect_js,
        Clicked (ByRole [PStr ''button''] [(''name'', PStr confirm_button)]),
        Clicked (BySelector timetable_selector)] \<and>
     filter by_absolute_selector_or_dom_path (activations None (after_login (fst (run_ebridge w argv)))) =
       [Clicked (BySelector tile_selector),
        Redirected redirect_js,
        Clicked (BySelector timetable_selector)]"
proof -
  have "sat (\<lambda>x. (snd (finish x)) = Completed \<longrightarrow>
     (\<exists>browser started visited page1 field1 filled1 page2 field2 filled2 page3 submit clicked1
        loaded1 cleared page4 tile clicked2 loaded2 page5 timetables clicked3 redirected
        page6 confirm clicked4 page7 timetable clicked5 src.
        (fst (finish x)) =
         [(Construct ''BrowserEmulator'' [(''headless'', PBool False)], Returns browser),
          (Method browser ''start'' [] [], Returns started),
          (Method browser ''visit'' [PStr login_url] [], Returns visited),
          (Sleep 3, Returns PNone),
          (GetAttr browser ''focusedpage'', Returns page1),
          (Method page1 ''query_selector'' [PStr username_selector] [], Returns field1),
          (Method field1 ''fill'' [PStr (argv ! 1)] [], Returns filled1),
          (GetAttr browser ''focusedpage'', Returns page2),
          (Method page2 ''query_selector'' [PStr password_selector] [], Returns field2),
          (Method field2 ''fill'' [PStr (argv ! 2)] [], Returns filled2),
          (GetAttr browser ''focusedpage'', Returns page3),
          (Method page3 ''query_selector'' [PStr submit_selector] [], Returns submit),
          (Method submit ''click'' [] [], Returns clicked1),
          (Method browser ''wait_for_load'' [] [], Returns loaded1),
          (Method browser ''eval_js'' [PStr clear_target_js] [], Returns cleared),
          (GetAttr browser ''focusedpage'', Returns page4),
          (Method page4 ''query_selector'' [PStr tile_selector] [], Returns tile),
          (Method tile ''click'' [] [], Returns clicked2),
          (Method browser ''wait_for_load'' [] [], Returns loaded2),
          (GetAttr browser ''focusedpage'', Returns page5),
          (Method page5 ''get_by_role'' [PStr ''button''] [(''name'', PStr timetables_button)],
             Returns timetables),
          (Method timetables ''click'' [] [], Returns clicked3),
          (Method browser ''eval_js'' [PStr redirect_js] [], Returns redirected),
          (Sleep 1, Returns PNone),
          (GetAttr browser ''focusedpage'', Returns page6),
          (Method page6 ''get_by_role'' [PStr ''button''] [(''name'', PStr confirm_button)],
             Returns confirm),
          (Method confirm ''click'' [] [], Returns clicked4),
          (GetAttr browser ''focusedpage'', Returns page7),
          (Method page7 ''query_selector'' [PStr timetable_selector] [], Returns timetable),
          (Method timetable ''click'' [] [], Returns clicked5),
          (Method browser ''eval_js'' [PStr frame_src_js] [], Returns src),
          (Print src, Returns PNone),
          (Sleep 2, Returns PNone)]) \<and>
     activations None (after_login (fst (finish x))) =
       [Clicked (BySelector tile_selector),
        Clicked (ByRole [PStr ''button''] [(''name'', PStr timetables_button)]),
        Redirected redirect_js,
        Clicked (ByRole [PStr ''button''] [(''name'', PStr confirm_button)]),
        Clicked (BySelector timetable_selector)] \<and>
     filter by_absolute_selector_or_dom_path (activations None (after_login (fst (finish x)))) =
       [Clicked (BySelector tile_selector),
        Redirected redirect_js,
        Clicked (BySelector timetable_selector)]) (ebridge_script argv) w []"
    using assms unfolding ebridge_script_def
    apply (simp add: Let_def prims and_then_assoc and_then_ret)
    apply (intro walk)
    apply (simp_all add: finish_def after_login_def script_strings)
    done
  then show ?thesis by (rule run_sat)
qed

lemma run_long_pauses:
  assumes "2 < length argv"
  shows "prefix (pauses None (fst (run_ebridge w argv)))
       [(Some (Method PNone ''visit'' [PStr login_url] []), Sleep 3),
        (Some (Method PNone ''click'' [] []), Method PNone ''wait_for_load'' [] []),
        (Some (Method PNone ''click'' [] []), Method PNone ''wait_for_load'' [] []),
        (Some (Method PNone ''eval_js'' [PStr redirect_js] []), Sleep 1),
        (Some (Print PNone), Sleep 2)] \<and>
     ((snd (run_ebridge w argv)) = Completed \<longrightarrow> pauses None (fst (run_ebridge w argv)) =
       [(Some (Method PNone ''visit'' [PStr login_url] []), Sleep 3),
        (Some (Method PNone ''click'' [] []), Method PNone ''wait_for_load'' [] []),
        (Some (Method PNone ''click'' [] []), Method PNone ''wait_for_load'' [] []),
        (Some (Method PNone ''eval_js'' [PStr redirect_js] []), Sleep 1),
        (Some (Print PNone), Sleep 2)])"
proof -
  have "sat (\<lambda>x. prefix (pauses None (fst (finish x)))
       [(Some (Method PNone ''visit'' [PStr login_url] []), Sleep 3),
        (Some (Method PNone ''click'' [] []), Method PNone ''wait_for_load'' [] []),
        (Some (Method PNone ''click'' [] []), Method PNone ''wait_for_load'' [] []),
        (Some (Method PNone ''eval_js'' [PStr redirect_js] []), Sleep 1),
        (Some (Print PNone), Sleep 2)] \<and>
     ((snd (finish x)) = Completed \<longrightarrow> pauses None (fst (finish x)) =
       [(Some (Method PNone ''visit'' [PStr login_url] []), Sleep 3),
        (Some (Method PNone ''click'' [] []), Method PNone ''wait_for_load'' [] []),
        (Some (Method PNone ''click'' [] []), Method PNone ''wait_for_load'' [] []),
        (Some (Method PNone ''eval_js'' [PStr redirect_js] []), Sleep 1),
        (Some (Print PNone), Sleep 2)])) (ebridge_script argv) w []"
    using assms unfolding ebridge_script_def
    apply (simp add: Let_def prims and_then_assoc and_then_ret)
    apply (intro walk)
    apply (simp_all add: finish_def )
    done
  then show ?thesis by (rule run_sat)
qed


subsection \<open>The three runs used as examples\<close>

lemmas run_defs =
  run_ebridge_def ebridge_script_def prims and_then_def perform_def ret_def Let_def

lemma run_obliging_login: "run_ebridge obliging argv_login = (obliging_login_run, Completed)"
  by (simp add: run_defs obliging_def argv_login_def obliging_login_run_def)

lemma run_offline_login:
  "run_ebridge offline argv_login =
     (offline_login_run, Uncaught (LibraryError ''net::ERR_NAME_NOT_RESOLVED''))"
  by (simp add: run_defs offline_def argv_login_def offline_login_run_def)

lemma argv_login_long: "2 < length argv_login"
  by (simp add: argv_login_def)

section \<open>The command-line check\<close>

text \<open>
  Claim C1. \<^verbatim>\<open>sys.argv\<close> holds the script's name and then the positional arguments.
  With fewer than two of them (\<open>length argv \<le> 2\<close>) the run is exactly: print the error
  message, call \<^verbatim>\<open>sys.exit(1)\<close>; the process ends with status 1. With two or more the
  first operation of the run is the construction of the browser, and \<^verbatim>\<open>sys.exit\<close> is
  never called.
\<close>

theorem missing_arguments_exit:
  "(length argv \<le> 2 \<longrightarrow>
      run_ebridge w argv =
        ([(Print (PStr missing_args_message), Returns PNone),
          (SysExit 1, Raises (SystemExit 1))],
         Uncaught (SystemExit 1)) \<and>
      exit_status (snd (run_ebridge w argv)) = 1) \<and>
   (2 < length argv \<longrightarrow>
      (\<exists>r es. fst (run_ebridge w argv) =
         (Construct ''BrowserEmulator'' [(''headless'', PBool False)], r) # es) \<and>
      (\<forall>n r. (SysExit n, r) \<notin> set (fst (run_ebridge w argv))))"
proof (intro conjI impI)
  assume short: "length argv \<le> 2"
  show "run_ebridge w argv =
        ([(Print (PStr missing_args_message), Returns PNone),
          (SysExit 1, Raises (SystemExit 1))],
         Uncaught (SystemExit 1))"
    by (rule run_short [OF short])
  then show "exit_status (snd (run_ebridge w argv)) = 1"
    by simp
next
  assume long: "2 < length argv"
  from run_long_headful [OF long, of w]
  show "\<exists>r es. fst (run_ebridge w argv) =
           (Construct ''BrowserEmulator'' [(''headless'', PBool False)], r) # es"
    by blast
  from run_long_headful [OF long, of w]
  show "\<forall>n r. (SysExit n, r) \<notin> set (fst (run_ebridge w argv))"
    by blast
qed

theorem missing_arguments_exit_witness:
  "snd (run_ebridge obliging argv_none) = Uncaught (SystemExit 1) \<and>
   exit_status (snd (run_ebridge obliging argv_none)) = 1 \<and>
   printed (fst (run_ebridge obliging argv_none)) = [PStr missing_args_message] \<and>
   (\<forall>n r. (SysExit n, r) \<notin> set (fst (run_ebridge obliging argv_login)))"
  using missing_arguments_exit [of argv_none obliging]
    missing_arguments_exit [of argv_login obliging]
  by (simp add: argv_none_def argv_login_def)

text \<open>
  Claim C10. On that error path nothing is asked of a browser: no construction, no
  attribute, no method call appears in the run, and the run is the same in every world.
\<close>

theorem no_browser_on_error_path:
  assumes "length argv \<le> 2"
  shows "list_all (\<lambda>ev. \<not> is_browser_call (fst ev)) (fst (run_ebridge w argv)) \<and>
         run_ebridge w argv = run_ebridge w' argv"
  using assms by (simp add: run_short)

theorem no_browser_on_error_path_witness:
  "length argv_none \<le> 2 \<and>
   list_all (\<lambda>ev. \<not> is_browser_call (fst ev)) (fst (run_ebridge offline argv_none)) \<and>
   run_ebridge offline argv_none = run_ebridge obliging argv_none"
proof -
  have a: "length argv_none \<le> 2"
    by (simp add: argv_none_def)
  show ?thesis
    using a no_browser_on_error_path [OF a, of offline obliging] by blast
qed

text \<open>
  Claim C9. Two command lines with at least two positional arguments that agree on the
  first two give the same run in the same world, whatever else they hold.
\<close>

theorem extra_arguments_ignored:
  assumes "2 < length argv" and "2 < length argv'"
    and "argv ! 1 = argv' ! 1" and "argv ! 2 = argv' ! 2"
  shows "run_ebridge w argv = run_ebridge w argv'"
  using assms by (simp add: run_ebridge_def ebridge_script_def)

theorem extra_arguments_ignored_witness:
  "2 < length argv_login \<and> 2 < length argv_extra \<and>
   argv_login ! 1 = argv_extra ! 1 \<and> argv_login ! 2 = argv_extra ! 2 \<and>
   run_ebridge obliging argv_login = run_ebridge obliging argv_extra"
proof -
  have a: "2 < length argv_login" and b: "2 < length argv_extra"
    and c: "argv_login ! 1 = argv_extra ! 1" and d: "argv_login ! 2 = argv_extra ! 2"
    by (simp_all add: argv_login_def argv_extra_def)
  show ?thesis
    using a b c d extra_arguments_ignored [OF a b c d, of obliging] by simp
qed

section \<open>Failures\<close>

lemma settled_facts:
  "settled tr out \<Longrightarrow>
    (\<forall>c e. (c, Raises e) \<in> set tr \<longrightarrow>
       out = Uncaught e \<and> last tr = (c, Raises e) \<and> raise_free (butlast tr))"
  by (induction tr out rule: settled.induct) (auto simp: raise_free_def)

lemma run_settled: "settled (fst (run_ebridge w argv)) (snd (run_ebridge w argv))"
proof (cases "2 < length argv")
  case True
  then show ?thesis by (rule run_long_settled)
next
  case False
  then have "length argv \<le> 2" by simp
  then show ?thesis by (simp add: run_short)
qed

text \<open>
  Claim C2. Whatever operation raises, the exception is the end of the run: the raising
  operation is the last one, nothing before it raised, and the process ends with that very
  exception uncaught (exit status 1 unless it is a \<^verbatim>\<open>SystemExit\<close>). The one place where
  the script ends the run by itself, the \<^verbatim>\<open>sys.exit\<close> call, is only reached when
  arguments are missing.
\<close>

theorem failures_are_not_caught:
  assumes "run_ebridge w argv = (tr, out)"
  shows "(\<forall>c e. (c, Raises e) \<in> set tr \<longrightarrow>
            out = Uncaught e \<and> last tr = (c, Raises e) \<and> raise_free (butlast tr) \<and>
            ((\<forall>n. e \<noteq> SystemExit n) \<longrightarrow> exit_status out = 1)) \<and>
         (\<forall>n r. (SysExit n, r) \<in> set tr \<longrightarrow> length argv \<le> 2)"
proof (intro conjI allI impI)
  fix c e
  assume raised: "(c, Raises e) \<in> set tr"
  have "settled tr out"
    using run_settled [of w argv] assms by simp
  from settled_facts [OF this] raised
  show "out = Uncaught e" and "last tr = (c, Raises e)" and "raise_free (butlast tr)"
    by blast+
  then show "exit_status out = 1" if "\<forall>n. e \<noteq> SystemExit n"
    using that by (cases e) simp_all
next
  fix n r
  assume exit: "(SysExit n, r) \<in> set tr"
  show "length argv \<le> 2"
  proof (rule ccontr)
    assume "\<not> length argv \<le> 2"
    then have "2 < length argv" by simp
    from run_long_headful [OF this, of w] assms exit show False by simp
  qed
qed

theorem failures_are_not_caught_witness:
  "run_ebridge offline argv_login =
     (offline_login_run, Uncaught (LibraryError ''net::ERR_NAME_NOT_RESOLVED'')) \<and>
   (Method (PObj 0) ''visit'' [PStr login_url] [],
      Raises (LibraryError ''net::ERR_NAME_NOT_RESOLVED'')) \<in> set offline_login_run \<and>
   last offline_login_run =
     (Method (PObj 0) ''visit'' [PStr login_url] [],
      Raises (LibraryError ''net::ERR_NAME_NOT_RESOLVED'')) \<and>
   exit_status (Uncaught (LibraryError ''net::ERR_NAME_NOT_RESOLVED'')) = 1"
proof -
  have a: "(Method (PObj 0) ''visit'' [PStr login_url] [],
      Raises (LibraryError ''net::ERR_NAME_NOT_RESOLVED'')) \<in> set offline_login_run"
    by (simp add: offline_login_run_def)
  note caught = failures_are_not_caught [OF run_offline_login, THEN conjunct1,
      THEN spec, THEN spec, THEN mp, OF a]
  show ?thesis
    apply (intro conjI)
       apply (rule run_offline_login)
      apply (rule a)
     apply (rule caught [THEN conjunct2, THEN conjunct1])
    apply simp
    done
qed

section \<open>The successful path\<close>

text \<open>
  Claim C3. When the run completes, exactly one value has been printed, and it is the
  value that \<^verbatim>\<open>eval_js("document.getElementById('myFrame').src")\<close> returned.
\<close>

theorem printed_value_is_frame_src:
  assumes "run_ebridge w argv = (tr, Completed)"
  shows "printed tr = eval_js_results frame_src_js tr \<and> length (printed tr) = 1"
proof -
  have long: "2 < length argv"
    by (rule completed_is_long [OF assms])
  from run_long_printed [OF long, of w, unfolded assms fst_conv snd_conv]
  show ?thesis by blast
qed

theorem printed_value_is_frame_src_witness:
  "run_ebridge obliging argv_login = (obliging_login_run, Completed) \<and>
   printed obliging_login_run = [PStr ''https://timetable.example/frame''] \<and>
   eval_js_results frame_src_js obliging_login_run = [PStr ''https://timetable.example/frame'']"
  using run_obliging_login printed_value_is_frame_src [OF run_obliging_login]
  by (simp add: obliging_login_run_def)

text \<open>
  Claim C4. With two or more arguments, the fills of a run are, in this order and as far
  as the run gets, \<^verbatim>\<open>sys.argv[1]\<close> into the element the username selector has just
  found and \<^verbatim>\<open>sys.argv[2]\<close> into the element the password selector has just found;
  nothing else is ever filled. When none of the first ten operations raises they are:
  construct and start the browser, visit the login URL, sleep, look up the username
  selector on the focused page and fill \<^verbatim>\<open>sys.argv[1]\<close> into the element found, look
  up the password selector on the focused page and fill \<^verbatim>\<open>sys.argv[2]\<close> into the
  element found.
\<close>

theorem credentials_filled_into_login_form:
  assumes "2 < length argv" and "run_ebridge w argv = (tr, out)"
  shows "prefix (fills None tr)
      [(Some username_selector, [PStr (argv ! 1)]), (Some password_selector, [PStr (argv ! 2)])] \<and>
    (raise_free (take 10 tr) \<longrightarrow>
      (\<exists>browser r1 r2 page1 field1 r3 page2 field2 r4.
         take 10 tr =
           [(Construct ''BrowserEmulator'' [(''headless'', PBool False)], Returns browser),
            (Method browser ''start'' [] [], r1),
            (Method browser ''visit'' [PStr login_url] [], r2),
            (Sleep 3, Returns PNone),
            (GetAttr browser ''focusedpage'', Returns page1),
            (Method page1 ''query_selector'' [PStr username_selector] [], Returns field1),
            (Method field1 ''fill'' [PStr (argv ! 1)] [], r3),
            (GetAttr browser ''focusedpage'', Returns page2),
            (Method page2 ''query_selector'' [PStr password_selector] [], Returns field2),
            (Method field2 ''fill'' [PStr (argv ! 2)] [], r4)]))"
  using run_long_fills [OF assms(1), of w] assms(2) by simp

theorem credentials_filled_into_login_form_witness:
  "2 < length argv_login \<and>
   run_ebridge obliging argv_login = (obliging_login_run, Completed) \<and>
   raise_free (take 10 obliging_login_run) \<and>
   fills None obliging_login_run =
     [(Some username_selector, [PStr ''alice'']), (Some password_selector, [PStr ''s3cret''])] \<and>
   (\<exists>browser r1 r2 page1 field1 r3 page2 field2 r4.
         take 10 obliging_login_run =
           [(Construct ''BrowserEmulator'' [(''headless'', PBool False)], Returns browser),
            (Method browser ''start'' [] [], r1),
            (Method browser ''visit'' [PStr login_url] [], r2),
            (Sleep 3, Returns PNone),
            (GetAttr browser ''focusedpage'', Returns page1),
            (Method page1 ''query_selector'' [PStr username_selector] [], Returns field1),
            (Method field1 ''fill'' [PStr (argv_login ! 1)] [], r3),
            (GetAttr browser ''focusedpage'', Returns page2),
            (Method page2 ''query_selector'' [PStr password_selector] [], Returns field2),
            (Method field2 ''fill'' [PStr (argv_login ! 2)] [], r4)])"
proof -
  have a: "raise_free (take 10 obliging_login_run)"
    by (simp add: obliging_login_run_def raise_free_def)
  have b: "fills None obliging_login_run =
     [(Some username_selector, [PStr ''alice'']), (Some password_selector, [PStr ''s3cret''])]"
    by (simp add: obliging_login_run_def)
  note filled = credentials_filled_into_login_form [OF argv_login_long run_obliging_login]
  note ex = filled [THEN conjunct2, THEN mp, OF a]
  show ?thesis
    apply (intro conjI)
        apply (rule argv_login_long)
       apply (rule run_obliging_login)
      apply (rule a)
     apply (rule b)
    apply (rule ex)
    done
qed

text \<open>
  Claim C5. When the run completes, its operations are, each on the value the one before
  it returned or on the browser: construct and start the browser, visit the login page,
  sleep, fill the two fields, click the element of the submit selector, wait for the load,
  run the script that clears the tile link's target, click the element of the tile
  selector, wait for the load, click the Timetables button, run the script that redirects
  to an \<^verbatim>\<open>href\<close> read along a path of child nodes, sleep, click the confirm button,
  click the element of the timetable selector, read the frame's \<^verbatim>\<open>src\<close> by script,
  print it, sleep, end. After the login wait the elements gone through are five; those
  identified by an absolute selector or by a computed path in the document are exactly
  three: the tile link, the link of the redirect, the timetable tile. The other two are
  the buttons found by role and name.
\<close>

theorem operation_sequence:
  assumes "run_ebridge w argv = (tr, Completed)"
  shows "(\<exists>browser started visited page1 field1 filled1 page2 field2 filled2 page3 submit clicked1
        loaded1 cleared page4 tile clicked2 loaded2 page5 timetables clicked3 redirected
        page6 confirm clicked4 page7 timetable clicked5 src.
        tr =
         [(Construct ''BrowserEmulator'' [(''headless'', PBool False)], Returns browser),
          (Method browser ''start'' [] [], Returns started),
          (Method browser ''visit'' [PStr login_url] [], Returns visited),
          (Sleep 3, Returns PNone),
          (GetAttr browser ''focusedpage'', Returns page1),
          (Method page1 ''query_selector'' [PStr username_selector] [], Returns field1),
          (Method field1 ''fill'' [PStr (argv ! 1)] [], Returns filled1),
          (GetAttr browser ''focusedpage'', Returns page2),
          (Method page2 ''query_selector'' [PStr password_selector] [], Returns field2),
          (Method field2 ''fill'' [PStr (argv ! 2)] [], Returns filled2),
          (GetAttr browser ''focusedpage'', Returns page3),
          (Method page3 ''query_selector'' [PStr submit_selector] [], Returns submit),
          (Method submit ''click'' [] [], Returns clicked1),
          (Method browser ''wait_for_load'' [] [], Returns loaded1),
          (Method browser ''eval_js'' [PStr clear_target_js] [], Returns cleared),
          (GetAttr browser ''focusedpage'', Returns page4),
          (Method page4 ''query_selector'' [PStr tile_selector] [], Returns tile),
          (Method tile ''click'' [] [], Returns clicked2),
          (Method browser ''wait_for_load'' [] [], Returns loaded2),
          (GetAttr browser ''focusedpage'', Returns page5),
          (Method page5 ''get_by_role'' [PStr ''button''] [(''name'', PStr timetables_button)],
             Returns timetables),
          (Method timetables ''click'' [] [], Returns clicked3),
          (Method browser ''eval_js'' [PStr redirect_js] [], Returns redirected),
          (Sleep 1, Returns PNone),
          (GetAttr browser ''focusedpage'', Returns page6),
          (Method page6 ''get_by_role'' [PStr ''button''] [(''name'', PStr confirm_button)],
             Returns confirm),
          (Method confirm ''click'' [] [], Returns clicked4),
          (GetAttr browser ''focusedpage'', Returns page7),
          (Method page7 ''query_selector'' [PStr timetable_selector] [], Returns timetable),
          (Method timetable ''click'' [] [], Returns clicked5),
          (Method browser ''eval_js'' [PStr frame_src_js] [], Returns src),
          (Print src, Returns PNone),
          (Sleep 2, Returns PNone)]) \<and>
     activations None (after_login tr) =
       [Clicked (BySelector tile_selector),
        Clicked (ByRole [PStr ''button''] [(''name'', PStr timetables_button)]),
        Redirected redirect_js,
        Clicked (ByRole [PStr ''button''] [(''name'', PStr confirm_button)]),
        Clicked (BySelector timetable_selector)] \<and>
     filter by_absolute_selector_or_dom_path (activations None (after_login tr)) =
       [Clicked (BySelector tile_selector),
        Redirected redirect_js,
        Clicked (BySelector timetable_selector)]"
  by (rule run_long_sequence [OF completed_is_long [OF assms], of w,
        unfolded assms fst_conv snd_conv, THEN mp, OF refl])

theorem operation_sequence_witness:
  "run_ebridge obliging argv_login = (obliging_login_run, Completed) \<and>
   activations None (after_login obliging_login_run) =
       [Clicked (BySelector tile_selector),
        Clicked (ByRole [PStr ''button''] [(''name'', PStr timetables_button)]),
        Redirected redirect_js,
        Clicked (ByRole [PStr ''button''] [(''name'', PStr confirm_button)]),
        Clicked (BySelector timetable_selector)] \<and>
   length (filter by_absolute_selector_or_dom_path
     (activations None (after_login obliging_login_run))) = 3"
proof -
  note seq = operation_sequence [OF run_obliging_login]
  note five = seq [THEN conjunct2, THEN conjunct1]
  note three = seq [THEN conjunct2, THEN conjunct2]
  have count: "length (filter by_absolute_selector_or_dom_path
     (activations None (after_login obliging_login_run))) = 3"
    by (subst three) simp
  show ?thesis
    apply (intro conjI)
      apply (rule run_obliging_login)
     apply (rule five)
    apply (rule count)
    done
qed

section \<open>Pauses\<close>

text \<open>
  Claim C6, as the code has it. In every world and for every command line the pauses of a
  run are an initial part of these five, and a completed run has all of them:
  \<^verbatim>\<open>time.sleep(3)\<close> right after the visit of the login page, \<^verbatim>\<open>wait_for_load()\<close>
  right after a click, \<^verbatim>\<open>wait_for_load()\<close> right after a click, \<^verbatim>\<open>time.sleep(1)\<close>
  right after the redirecting script, \<^verbatim>\<open>time.sleep(2)\<close> right after the print. The
  three sleeps have durations that are numerals of the script; the two waits for the load
  are given no duration by the script.
\<close>

theorem pauses_of_a_run:
  assumes "run_ebridge w argv = (tr, out)"
  shows "prefix (pauses None tr)
       [(Some (Method PNone ''visit'' [PStr login_url] []), Sleep 3),
        (Some (Method PNone ''click'' [] []), Method PNone ''wait_for_load'' [] []),
        (Some (Method PNone ''click'' [] []), Method PNone ''wait_for_load'' [] []),
        (Some (Method PNone ''eval_js'' [PStr redirect_js] []), Sleep 1),
        (Some (Print PNone), Sleep 2)] \<and>
     (out = Completed \<longrightarrow> pauses None tr =
       [(Some (Method PNone ''visit'' [PStr login_url] []), Sleep 3),
        (Some (Method PNone ''click'' [] []), Method PNone ''wait_for_load'' [] []),
        (Some (Method PNone ''click'' [] []), Method PNone ''wait_for_load'' [] []),
        (Some (Method PNone ''eval_js'' [PStr redirect_js] []), Sleep 1),
        (Some (Print PNone), Sleep 2)])"
proof (cases "2 < length argv")
  case True
  from run_long_pauses [OF True, of w] assms show ?thesis by simp
next
  case False
  then have short: "length argv \<le> 2" by simp
  from run_short [OF short, of w] assms show ?thesis by auto
qed

theorem pauses_of_a_run_witness:
  "run_ebridge obliging argv_login = (obliging_login_run, Completed) \<and>
   map snd (pauses None obliging_login_run) =
     [Sleep 3, Method PNone ''wait_for_load'' [] [], Method PNone ''wait_for_load'' [] [],
      Sleep 1, Sleep 2] \<and>
   run_ebridge offline argv_login =
     (offline_login_run, Uncaught (LibraryError ''net::ERR_NAME_NOT_RESOLVED'')) \<and>
   prefix (map snd (pauses None offline_login_run))
     [Sleep 3, Method PNone ''wait_for_load'' [] [], Method PNone ''wait_for_load'' [] [],
      Sleep 1, Sleep 2]"
proof -
  note all_five = pauses_of_a_run [OF run_obliging_login, THEN conjunct2, THEN mp, OF refl]
  have a: "map snd (pauses None obliging_login_run) =
     [Sleep 3, Method PNone ''wait_for_load'' [] [], Method PNone ''wait_for_load'' [] [],
      Sleep 1, Sleep 2]"
    by (subst all_five) simp
  have b: "prefix (map snd (pauses None offline_login_run))
     [Sleep 3, Method PNone ''wait_for_load'' [] [], Method PNone ''wait_for_load'' [] [],
      Sleep 1, Sleep 2]"
    by (simp add: offline_login_run_def)
  show ?thesis
    apply (intro conjI)
       apply (rule run_obliging_login)
      apply (rule a)
     apply (rule run_offline_login)
    apply (rule b)
    done
qed

text \<open>
  The claim as the specification words it takes every pause for a sleep of a fixed
  duration. In the run where everything succeeds, two of the five pauses are waits for the
  page to load.
\<close>

theorem every_pause_a_fixed_sleep_counterexample:
  "snd (run_ebridge obliging argv_login) = Completed \<and>
   \<not> list_all is_fixed_sleep (map snd (pauses None (fst (run_ebridge obliging argv_login))))"
  by (simp add: run_obliging_login obliging_login_run_def)

section \<open>The browser session\<close>



text \<open>
  Claim C8. Every construction in every run is \<^verbatim>\<open>BrowserEmulator(headless=False)\<close>, and
  with two or more arguments the run starts with it.
\<close>

theorem always_headful:
  assumes "run_ebridge w argv = (tr, out)"
  shows "(\<forall>cls kw r. (Construct cls kw, r) \<in> set tr \<longrightarrow>
            cls = ''BrowserEmulator'' \<and> kw = [(''headless'', PBool False)]) \<and>
     (2 < length argv \<longrightarrow>
       (\<exists>r es. tr = (Construct ''BrowserEmulator'' [(''headless'', PBool False)], r) # es))"
proof (cases "2 < length argv")
  case True
  from run_long_headful [OF True, of w] assms show ?thesis by simp
next
  case False
  then have short: "length argv \<le> 2" by simp
  from short run_short [OF short, of w] assms show ?thesis by auto
qed

theorem always_headful_witness:
  "run_ebridge obliging argv_login = (obliging_login_run, Completed) \<and>
   2 < length argv_login \<and>
   (Construct ''BrowserEmulator'' [(''headless'', PBool False)], Returns (PObj 0))
     \<in> set obliging_login_run \<and>
   (\<exists>r es. obliging_login_run =
      (Construct ''BrowserEmulator'' [(''headless'', PBool False)], r) # es)"
proof -
  have a: "(Construct ''BrowserEmulator'' [(''headless'', PBool False)], Returns (PObj 0))
     \<in> set obliging_login_run"
    by (simp add: obliging_login_run_def)
  note headful = always_headful [OF run_obliging_login]
  show ?thesis
    apply (intro conjI)
       apply (rule run_obliging_login)
      apply (rule argv_login_long)
     apply (rule a)
    apply (rule headful [THEN conjunct2, THEN mp, OF argv_login_long])
    done
qed

end
